theory Spec2Isabelle
  imports Complex_Main "HOL-Library.Char_ord" "HOL-Library.List_Lexorder"
begin

section \<open>Python values used by the sales analytics pipeline\<close>

text \<open>
  The repository is a Python batch pipeline: \<^verbatim>\<open>utils/file_handler.py\<close> parses and
  validates pipe-delimited sales lines, \<^verbatim>\<open>utils/data_processor.py\<close> aggregates them and
  \<^verbatim>\<open>utils/api_handler.py\<close> joins them with a product catalog. This theory embeds the
  functions of the current variant (directory \<^verbatim>\<open>sales-analytics-system\<close>) and, where the
  older copy (\<^verbatim>\<open>sales-analytics-system_old\<close>) handles an edge case differently, the older
  function as well, under the suffix \<open>_old\<close>.

  Conventions of the embedding.
  \<^item> A Python \<^verbatim>\<open>str\<close> is a \<open>string\<close>; a \<open>char\<close> stands for a code point below 256, so
    the character classes below are those of Python restricted to that range.
  \<^item> A Python \<^verbatim>\<open>int\<close> is an \<open>int\<close>.
  \<^item> A Python \<^verbatim>\<open>float\<close> is a \<open>pyfloat\<close>: a finite value (carried as the exact rational
    it denotes), the two infinities, or nan. Comparisons follow IEEE 754 (every
    comparison with nan is false). Arithmetic on finite values is exact: rounding to
    binary64, overflow and underflow are not modelled.
  \<^item> An exception is a value \<open>Inl e\<close> of the result type \<open>py_error + 'a\<close>.
  \<^item> The transaction dictionaries are records with the eight keys that
    \<^verbatim>\<open>parse_transactions\<close> stores, each of the type it stores there.
\<close>

datatype py_error = ValueError | ZeroDivisionError | OverflowError

datatype pyfloat = Fin rat | PosInf | NegInf | NaN

subsection \<open>Strings\<close>

definition py_isspace :: "char \<Rightarrow> bool" where
  \<comment> \<open>\<^verbatim>\<open>str.isspace\<close> on one code point below 256\<close>
  "py_isspace c =
     (let n = (of_char c :: nat)
      in (9 \<le> n \<and> n \<le> 13) \<or> (28 \<le> n \<and> n \<le> 32) \<or> n = 133 \<or> n = 160)"

definition py_strip :: "string \<Rightarrow> string" where
  \<comment> \<open>\<^verbatim>\<open>s.strip()\<close>\<close>
  "py_strip s = rev (dropWhile py_isspace (rev (dropWhile py_isspace s)))"

fun py_split :: "char \<Rightarrow> string \<Rightarrow> string list" where
  \<comment> \<open>\<^verbatim>\<open>s.split(sep)\<close> for a one-character separator; the result is never empty, so the
      last case below is never taken\<close>
  "py_split sep [] = [[]]"
| "py_split sep (c # cs) =
     (if c = sep then [] # py_split sep cs
      else (case py_split sep cs of p # ps \<Rightarrow> (c # p) # ps | [] \<Rightarrow> [[c]]))"


definition py_replace :: "char \<Rightarrow> string \<Rightarrow> string \<Rightarrow> string" where
  \<comment> \<open>\<^verbatim>\<open>s.replace(c, r)\<close> for a one-character pattern\<close>
  "py_replace c r s = concat (map (\<lambda>x. if x = c then r else [x]) s)"

definition py_startswith :: "string \<Rightarrow> string \<Rightarrow> bool" where
  "py_startswith s p = (take (length p) s = p)"

definition py_lower_char :: "char \<Rightarrow> char" where
  \<comment> \<open>\<^verbatim>\<open>str.lower\<close> on one code point below 256: A-Z and the accented capitals\<close>
  "py_lower_char c =
     (let n = (of_char c :: nat)
      in if (65 \<le> n \<and> n \<le> 90) \<or> (192 \<le> n \<and> n \<le> 222 \<and> n \<noteq> 215)
         then char_of (n + 32) else c)"

definition py_lower :: "string \<Rightarrow> string" where
  "py_lower s = map py_lower_char s"

definition is_decimal :: "char \<Rightarrow> bool" where
  \<comment> \<open>the characters \<^verbatim>\<open>int()\<close> and \<^verbatim>\<open>float()\<close> read as digits\<close>
  "is_decimal c = (let n = (of_char c :: nat) in 48 \<le> n \<and> n \<le> 57)"

definition py_isdigit :: "char \<Rightarrow> bool" where
  \<comment> \<open>\<^verbatim>\<open>str.isdigit\<close>: the decimal digits and the superscripts two, three and one\<close>
  "py_isdigit c =
     (let n = (of_char c :: nat) in (48 \<le> n \<and> n \<le> 57) \<or> n = 178 \<or> n = 179 \<or> n = 185)"

subsection \<open>Reading numbers: \<^verbatim>\<open>int(s)\<close> and \<^verbatim>\<open>float(s)\<close>\<close>

definition digit_val :: "char \<Rightarrow> int" where
  "digit_val c = int (of_char c) - 48"

definition digits_val :: "string \<Rightarrow> int" where
  "digits_val ds = foldl (\<lambda>a c. 10 * a + digit_val c) 0 ds"

fun underscores_ok :: "string \<Rightarrow> bool" where
  \<comment> \<open>every underscore stands between two digits\<close>
  "underscores_ok [] = True"
| "underscores_ok [c] = is_decimal c"
| "underscores_ok (c # d # cs) =
     (if is_decimal c then underscores_ok (d # cs)
      else c = CHR ''_'' \<and> is_decimal d \<and> underscores_ok (d # cs))"

definition digitpart :: "string \<Rightarrow> string option" where
  \<comment> \<open>Python's \<^verbatim>\<open>digitpart ::= digit (["_"] digit)*\<close>; the result is its digits\<close>
  "digitpart s =
     (if s \<noteq> [] \<and> is_decimal (hd s) \<and> underscores_ok s
      then Some (filter is_decimal s) else None)"

definition split_sign :: "string \<Rightarrow> bool \<times> string" where
  "split_sign s =
     (case s of
        [] \<Rightarrow> (False, [])
      | c # cs \<Rightarrow> if c = CHR ''-'' then (True, cs)
                 else if c = CHR ''+'' then (False, cs) else (False, s))"

definition py_int :: "string \<Rightarrow> py_error + int" where
  \<comment> \<open>\<^verbatim>\<open>int(s)\<close> in base ten; the interpreter's limit on the number of digits is not modelled\<close>
  "py_int s0 =
     (let (neg, body) = split_sign (py_strip s0)
      in case digitpart body of
           None \<Rightarrow> Inl ValueError
         | Some ds \<Rightarrow> Inr (if neg then - digits_val ds else digits_val ds))"

definition break_at :: "(char \<Rightarrow> bool) \<Rightarrow> string \<Rightarrow> string \<times> string option" where
  \<comment> \<open>the text before the first character satisfying \<open>P\<close>, and the text after it if there is one\<close>
  "break_at P s =
     (takeWhile (\<lambda>c. \<not> P c) s,
      case dropWhile (\<lambda>c. \<not> P c) s of [] \<Rightarrow> None | _ # r \<Rightarrow> Some r)"

definition opt_digitpart :: "string \<Rightarrow> string option" where
  "opt_digitpart s = (if s = [] then Some [] else digitpart s)"

definition mantissa :: "string \<Rightarrow> (int \<times> nat) option" where
  \<comment> \<open>\<^verbatim>\<open>[digitpart] "." digitpart | digitpart ["."]\<close>: the digits as an integer and the
      number of digits after the point\<close>
  "mantissa m =
     (case break_at (\<lambda>c. c = CHR ''.'') m of
        (ip, None) \<Rightarrow> (case digitpart ip of None \<Rightarrow> None | Some ds \<Rightarrow> Some (digits_val ds, 0))
      | (ip, Some fp) \<Rightarrow>
          (case (opt_digitpart ip, opt_digitpart fp) of
             (Some ids, Some fds) \<Rightarrow>
               if ids = [] \<and> fds = [] then None
               else Some (digits_val (ids @ fds), length fds)
           | _ \<Rightarrow> None))"

definition exponent :: "string option \<Rightarrow> int option" where
  \<comment> \<open>\<^verbatim>\<open>("e" | "E") ["+" | "-"] digitpart\<close>, absent meaning 0\<close>
  "exponent e =
     (case e of
        None \<Rightarrow> Some 0
      | Some t \<Rightarrow>
          (let (neg, body) = split_sign t
           in case digitpart body of
                None \<Rightarrow> None
              | Some ds \<Rightarrow> Some (if neg then - digits_val ds else digits_val ds)))"

definition scale10 :: "int \<Rightarrow> int \<Rightarrow> rat" where
  "scale10 n k = (if 0 \<le> k then of_int n * 10 ^ nat k else of_int n / 10 ^ nat (- k))"

definition decimal_value :: "string \<Rightarrow> rat option" where
  "decimal_value body =
     (case break_at (\<lambda>c. c = CHR ''e'' \<or> c = CHR ''E'') body of
        (m, e) \<Rightarrow>
          (case (mantissa m, exponent e) of
             (Some (n, nfrac), Some k) \<Rightarrow> Some (scale10 n (k - int nfrac))
           | _ \<Rightarrow> None))"

definition special_float :: "string \<Rightarrow> pyfloat option" where
  "special_float body =
     (let w = py_lower body
      in if w = ''inf'' \<or> w = ''infinity'' then Some PosInf
         else if w = ''nan'' then Some NaN else None)"

definition fneg :: "pyfloat \<Rightarrow> pyfloat" where
  "fneg x = (case x of Fin r \<Rightarrow> Fin (- r) | PosInf \<Rightarrow> NegInf | NegInf \<Rightarrow> PosInf | NaN \<Rightarrow> NaN)"

definition py_float :: "string \<Rightarrow> py_error + pyfloat" where
  \<comment> \<open>\<^verbatim>\<open>float(s)\<close>: a decimal literal, or inf, infinity or nan in any case, with a sign\<close>
  "py_float s0 =
     (let (neg, body) = split_sign (py_strip s0)
      in case special_float body of
           Some v \<Rightarrow> Inr (if neg then fneg v else v)
         | None \<Rightarrow>
             (case decimal_value body of
                None \<Rightarrow> Inl ValueError
              | Some r \<Rightarrow> Inr (Fin (if neg then - r else r))))"

subsection \<open>Float comparison and arithmetic\<close>

fun fle :: "pyfloat \<Rightarrow> pyfloat \<Rightarrow> bool" where
  \<comment> \<open>\<^verbatim>\<open>x <= y\<close>\<close>
  "fle NaN _ = False"
| "fle _ NaN = False"
| "fle NegInf _ = True"
| "fle _ PosInf = True"
| "fle (Fin a) (Fin b) = (a \<le> b)"
| "fle _ _ = False"

fun flt :: "pyfloat \<Rightarrow> pyfloat \<Rightarrow> bool" where
  \<comment> \<open>\<^verbatim>\<open>x < y\<close>\<close>
  "flt NaN _ = False"
| "flt _ NaN = False"
| "flt (Fin a) (Fin b) = (a < b)"
| "flt NegInf NegInf = False"
| "flt NegInf _ = True"
| "flt PosInf _ = False"
| "flt (Fin a) PosInf = True"
| "flt (Fin a) NegInf = False"

fun fmul :: "pyfloat \<Rightarrow> pyfloat \<Rightarrow> pyfloat" where
  \<comment> \<open>\<^verbatim>\<open>x * y\<close>\<close>
  "fmul NaN _ = NaN"
| "fmul _ NaN = NaN"
| "fmul (Fin a) (Fin b) = Fin (a * b)"
| "fmul (Fin a) PosInf = (if a = 0 then NaN else if 0 < a then PosInf else NegInf)"
| "fmul (Fin a) NegInf = (if a = 0 then NaN else if 0 < a then NegInf else PosInf)"
| "fmul PosInf (Fin b) = (if b = 0 then NaN else if 0 < b then PosInf else NegInf)"
| "fmul NegInf (Fin b) = (if b = 0 then NaN else if 0 < b then NegInf else PosInf)"
| "fmul PosInf PosInf = PosInf"
| "fmul PosInf NegInf = NegInf"
| "fmul NegInf PosInf = NegInf"
| "fmul NegInf NegInf = PosInf"

fun fadd :: "pyfloat \<Rightarrow> pyfloat \<Rightarrow> pyfloat" where
  \<comment> \<open>\<^verbatim>\<open>x + y\<close>\<close>
  "fadd NaN _ = NaN"
| "fadd _ NaN = NaN"
| "fadd (Fin a) (Fin b) = Fin (a + b)"
| "fadd (Fin a) y = y"
| "fadd x (Fin b) = x"
| "fadd PosInf PosInf = PosInf"
| "fadd NegInf NegInf = NegInf"
| "fadd _ _ = NaN"

fun fdiv :: "pyfloat \<Rightarrow> pyfloat \<Rightarrow> py_error + pyfloat" where
  \<comment> \<open>\<^verbatim>\<open>x / y\<close>: Python raises on a zero divisor, whatever the dividend\<close>
  "fdiv x (Fin b) =
     (if b = 0 then Inl ZeroDivisionError
      else Inr (case x of
                  Fin a \<Rightarrow> Fin (a / b)
                | PosInf \<Rightarrow> if 0 < b then PosInf else NegInf
                | NegInf \<Rightarrow> if 0 < b then NegInf else PosInf
                | NaN \<Rightarrow> NaN))"
| "fdiv (Fin a) y = Inr (if y = NaN then NaN else Fin 0)"
| "fdiv x y = Inr NaN"

definition round_half_even :: "rat \<Rightarrow> int" where
  "round_half_even r =
     (let f = \<lfloor>r\<rfloor>; d = r - of_int f
      in if d < 1 / 2 then f else if 1 / 2 < d then f + 1 else if even f then f else f + 1)"

definition round2 :: "pyfloat \<Rightarrow> pyfloat" where
  \<comment> \<open>\<^verbatim>\<open>round(x, 2)\<close>\<close>
  "round2 x = (case x of Fin r \<Rightarrow> Fin (of_int (round_half_even (r * 100)) / 100) | _ \<Rightarrow> x)"

definition int_of_float :: "pyfloat \<Rightarrow> py_error + int" where
  \<comment> \<open>\<^verbatim>\<open>int(x)\<close> for a float: truncation towards zero\<close>
  "int_of_float x =
     (case x of
        Fin r \<Rightarrow> Inr (if 0 \<le> r then \<lfloor>r\<rfloor> else \<lceil>r\<rceil>)
      | NaN \<Rightarrow> Inl ValueError
      | _ \<Rightarrow> Inl OverflowError)"

definition py_min :: "pyfloat list \<Rightarrow> py_error + pyfloat" where
  \<comment> \<open>\<^verbatim>\<open>min(xs)\<close>: the first element that no later one is below\<close>
  "py_min xs =
     (case xs of
        [] \<Rightarrow> Inl ValueError
      | x # rest \<Rightarrow> Inr (foldl (\<lambda>m y. if flt y m then y else m) x rest))"

definition py_max :: "pyfloat list \<Rightarrow> py_error + pyfloat" where
  "py_max xs =
     (case xs of
        [] \<Rightarrow> Inl ValueError
      | x # rest \<Rightarrow> Inr (foldl (\<lambda>m y. if flt m y then y else m) x rest))"

section \<open>\<^verbatim>\<open>utils/file_handler.py\<close>: parsing\<close>

record transaction =
  TransactionID :: string
  Date :: string
  ProductID :: string
  ProductName :: string
  Quantity :: int
  UnitPrice :: pyfloat
  CustomerID :: string
  Region :: string

definition sample_laptop :: transaction where
  \<comment> \<open>the transaction of the specification's first scenario\<close>
  "sample_laptop =
     \<lparr>TransactionID = ''T001'', Date = ''2024-01-05'', ProductID = ''P101'',
      ProductName = ''Laptop'', Quantity = 2, UnitPrice = Fin 50000, CustomerID = ''C001'',
      Region = ''North''\<rparr>"


definition sample_desk :: transaction where
  "sample_desk =
     \<lparr>TransactionID = ''T003'', Date = ''2024-01-06'', ProductID = ''P103'',
      ProductName = ''Desk'', Quantity = 1, UnitPrice = Fin 9000, CustomerID = ''C003'',
      Region = ''South''\<rparr>"

definition sample_bad_product :: transaction where
  "sample_bad_product =
     \<lparr>TransactionID = ''T004'', Date = ''2024-01-06'', ProductID = ''X103'',
      ProductName = ''Desk'', Quantity = 1, UnitPrice = Fin 9000, CustomerID = ''C003'',
      Region = ''North''\<rparr>"

definition parse_fields :: "string list \<Rightarrow> py_error + transaction" where
  \<comment> \<open>the body of the \<^verbatim>\<open>try\<close> block of \<^verbatim>\<open>parse_transactions\<close>, entered with eight parts;
      \<open>Inl\<close> is an exception that the \<^verbatim>\<open>except Exception\<close> clause catches\<close>
  "parse_fields parts =
     (let transaction_id = py_strip (parts ! 0);
          date = py_strip (parts ! 1);
          product_id = py_strip (parts ! 2);
          product_name = py_strip (py_replace CHR '','' '' '' (parts ! 3))
      in case py_int (py_strip (py_replace CHR '','' [] (parts ! 4))) of
           Inl e \<Rightarrow> Inl e
         | Inr quantity \<Rightarrow>
             (case py_float (py_strip (py_replace CHR '','' [] (parts ! 5))) of
                Inl e \<Rightarrow> Inl e
              | Inr unit_price \<Rightarrow>
                  (let customer_id = py_strip (parts ! 6);
                       region = py_strip (parts ! 7)
                   in if \<not> py_startswith transaction_id ''T'' then Inl ValueError
                      else if customer_id = [] \<or> region = [] then Inl ValueError
                      else if quantity \<le> 0 then Inl ValueError
                      else if fle unit_price (Fin 0) then Inl ValueError
                      else Inr \<lparr>TransactionID = transaction_id, Date = date,
                                ProductID = product_id, ProductName = product_name,
                                Quantity = quantity, UnitPrice = unit_price,
                                CustomerID = customer_id, Region = region\<rparr>)))"

record parse_state =
  parsed_transactions :: "transaction list"
  discarded_records :: "string list"
  discarded_count :: nat
  total_records :: nat

definition discard :: "string \<Rightarrow> parse_state \<Rightarrow> parse_state" where
  \<comment> \<open>\<^verbatim>\<open>discarded_count += 1; discarded_records.append(line)\<close>\<close>
  "discard line s =
     s\<lparr>discarded_count := discarded_count s + 1,
       discarded_records := discarded_records s @ [line]\<rparr>"

definition parse_step :: "parse_state \<Rightarrow> string \<Rightarrow> parse_state" where
  \<comment> \<open>one iteration of \<^verbatim>\<open>for line in raw_lines\<close>\<close>
  "parse_step s raw =
     (let line = py_strip raw
      in if line = [] then s
         else
           (let s1 = s\<lparr>total_records := total_records s + 1\<rparr>;
                parts = py_split CHR ''|'' line
            in if length parts \<noteq> 8 then discard line s1
               else
                 (case parse_fields parts of
                    Inr txn \<Rightarrow> s1\<lparr>parsed_transactions := parsed_transactions s1 @ [txn]\<rparr>
                  | Inl e \<Rightarrow> discard line s1)))"

definition parse_init :: parse_state where
  "parse_init =
     \<lparr>parsed_transactions = [], discarded_records = [], discarded_count = 0,
      total_records = 0\<rparr>"

definition parse_loop :: "string list \<Rightarrow> parse_state" where
  "parse_loop raw_lines = foldl parse_step parse_init raw_lines"

definition parse_transactions :: "string list \<Rightarrow> transaction list \<times> nat \<times> string list" where
  \<comment> \<open>the three \<^verbatim>\<open>print\<close> calls before \<^verbatim>\<open>return\<close> show \<open>total_records\<close>,
      \<open>discarded_count\<close> and the number of parsed transactions; they are not modelled\<close>
  "parse_transactions raw_lines =
     (let s = parse_loop raw_lines
      in (parsed_transactions s, discarded_count s, discarded_records s))"

subsection \<open>Accounting of parsed and discarded lines\<close>

definition accounted :: "parse_state \<Rightarrow> bool" where
  "accounted s =
     (length (parsed_transactions s) + discarded_count s = total_records s \<and>
      length (discarded_records s) = discarded_count s)"

lemma parse_step_accounted:
  assumes "accounted s"
  shows "accounted (parse_step s raw)"
  using assms
  by (auto simp: accounted_def parse_step_def discard_def Let_def split: sum.splits)

lemma parse_step_total:
  "total_records (parse_step s raw) = total_records s + (if py_strip raw = [] then 0 else 1)"
  by (auto simp: parse_step_def discard_def Let_def split: sum.splits)

lemma foldl_parse_step_accounted:
  "accounted s \<Longrightarrow> accounted (foldl parse_step s raw_lines)"
  by (induction raw_lines arbitrary: s) (simp_all add: parse_step_accounted)

lemma foldl_parse_step_total:
  "total_records (foldl parse_step s raw_lines) =
     total_records s + length (filter (\<lambda>l. py_strip l \<noteq> []) raw_lines)"
  by (induction raw_lines arbitrary: s) (simp_all add: parse_step_total)

text \<open>
  Claim C1. For every list of raw lines, the number of parsed transactions plus
  \<open>discarded_count\<close> equals the number of lines that are not empty once stripped, which
  is also the value of the loop's counter \<open>total_records\<close>; and \<open>discarded_records\<close> has
  exactly \<open>discarded_count\<close> entries.
\<close>

theorem parse_transactions_accounting:
  "length (fst (parse_transactions raw_lines)) + fst (snd (parse_transactions raw_lines))
     = length (filter (\<lambda>l. py_strip l \<noteq> []) raw_lines)
   \<and> total_records (parse_loop raw_lines) = length (filter (\<lambda>l. py_strip l \<noteq> []) raw_lines)
   \<and> length (snd (snd (parse_transactions raw_lines))) = fst (snd (parse_transactions raw_lines))"
proof -
  have init: "accounted parse_init"
    by (simp add: accounted_def parse_init_def)
  have acc: "accounted (parse_loop raw_lines)"
    unfolding parse_loop_def by (rule foldl_parse_step_accounted [OF init])
  have tot: "total_records (parse_loop raw_lines)
               = length (filter (\<lambda>l. py_strip l \<noteq> []) raw_lines)"
    unfolding parse_loop_def by (simp add: foldl_parse_step_total parse_init_def)
  from acc tot show ?thesis
    by (simp add: accounted_def parse_transactions_def Let_def)
qed

theorem parse_transactions_accounting_witness:
  "length (fst (parse_transactions
      [''T001|2024-01-05|P101|Laptop|2|50000|C001|North'',
       ''T002|2024-01-05|P101|Laptop|2|50000|C001'',
       ''   '',
       ''T003|2024-01-06|P102|Mouse|0|1,500.5|C002|South'']))
   + fst (snd (parse_transactions
      [''T001|2024-01-05|P101|Laptop|2|50000|C001|North'',
       ''T002|2024-01-05|P101|Laptop|2|50000|C001'',
       ''   '',
       ''T003|2024-01-06|P102|Mouse|0|1,500.5|C002|South''])) = 3
   \<and> fst (snd (parse_transactions
      [''T001|2024-01-05|P101|Laptop|2|50000|C001|North'',
       ''T002|2024-01-05|P101|Laptop|2|50000|C001'',
       ''   '',
       ''T003|2024-01-06|P102|Mouse|0|1,500.5|C002|South''])) = 2"
proof -
  let ?L = "[''T001|2024-01-05|P101|Laptop|2|50000|C001|North'',
             ''T002|2024-01-05|P101|Laptop|2|50000|C001'',
             ''   '',
             ''T003|2024-01-06|P102|Mouse|0|1,500.5|C002|South'']"
  have n: "length (filter (\<lambda>l. py_strip l \<noteq> []) ?L) = 3"
    by code_simp
  have d: "length (snd (snd (parse_transactions ?L))) = 2"
    by code_simp
  from parse_transactions_accounting [of ?L] n d show ?thesis
    by simp
qed

subsection \<open>Rejected lines\<close>







section \<open>\<^verbatim>\<open>utils/file_handler.py\<close>: validation and filters\<close>

definition amount :: "transaction \<Rightarrow> pyfloat" where
  \<comment> \<open>\<^verbatim>\<open>t["Quantity"] * t["UnitPrice"]\<close>: the int is converted to a float first\<close>
  "amount t = fmul (Fin (of_int (Quantity t))) (UnitPrice t)"

record summary =
  total_input :: nat
  invalid :: nat
  filtered_by_region :: nat
  filtered_by_amount :: nat
  final_count :: nat

record validation =
  invalid_count :: nat
  valid_transactions :: "transaction list"

definition validate_step :: "validation \<Rightarrow> transaction \<Rightarrow> validation" where
  \<comment> \<open>one iteration of the validation loop; on these records no check can raise, so the
      \<^verbatim>\<open>except Exception\<close> clause has no branch here\<close>
  "validate_step v txn =
     (if Quantity txn \<le> 0 then v\<lparr>invalid_count := invalid_count v + 1\<rparr>
      else if fle (UnitPrice txn) (Fin 0) then v\<lparr>invalid_count := invalid_count v + 1\<rparr>
      else if \<not> py_startswith (TransactionID txn) ''T''
        then v\<lparr>invalid_count := invalid_count v + 1\<rparr>
      else if \<not> py_startswith (ProductID txn) ''P''
        then v\<lparr>invalid_count := invalid_count v + 1\<rparr>
      else if \<not> py_startswith (CustomerID txn) ''C''
        then v\<lparr>invalid_count := invalid_count v + 1\<rparr>
      else v\<lparr>valid_transactions := valid_transactions v @ [txn]\<rparr>)"

definition validate_loop :: "transaction list \<Rightarrow> validation" where
  "validate_loop transactions =
     foldl validate_step \<lparr>invalid_count = 0, valid_transactions = []\<rparr> transactions"

record display =
  shown_regions :: "string list"
  shown_amount_range :: "(pyfloat \<times> pyfloat) option"

definition filter_display :: "transaction list \<Rightarrow> py_error + display" where
  \<comment> \<open>the block FILTER DISPLAY: what the two \<^verbatim>\<open>print\<close> calls show; the second is guarded by
      \<^verbatim>\<open>if amounts:\<close>\<close>
  "filter_display valid =
     (let regions = sort (remdups (map Region valid));
          amounts = map amount valid
      in if amounts \<noteq> [] then
           (case py_min amounts of
              Inl e \<Rightarrow> Inl e
            | Inr lo \<Rightarrow>
                (case py_max amounts of
                   Inl e \<Rightarrow> Inl e
                 | Inr hi \<Rightarrow>
                     Inr \<lparr>shown_regions = regions, shown_amount_range = Some (lo, hi)\<rparr>))
         else Inr \<lparr>shown_regions = regions, shown_amount_range = None\<rparr>)"

definition apply_region_filter :: "string option \<Rightarrow> transaction list \<Rightarrow> transaction list" where
  \<comment> \<open>\<^verbatim>\<open>if region:\<close> is false for \<^verbatim>\<open>None\<close> and for the empty string\<close>
  "apply_region_filter region ts =
     (case region of
        None \<Rightarrow> ts
      | Some r \<Rightarrow> if r \<noteq> [] then filter (\<lambda>t. py_lower (Region t) = py_lower r) ts else ts)"

definition within_bounds :: "pyfloat option \<Rightarrow> pyfloat option \<Rightarrow> transaction \<Rightarrow> bool" where
  \<comment> \<open>the condition of the amount comprehension; \<^verbatim>\<open>a >= b\<close> is \<^verbatim>\<open>b <= a\<close>\<close>
  "within_bounds min_amount max_amount t =
     ((case min_amount of None \<Rightarrow> True | Some lo \<Rightarrow> fle lo (amount t)) \<and>
      (case max_amount of None \<Rightarrow> True | Some hi \<Rightarrow> fle (amount t) hi))"

definition apply_amount_filter ::
  "pyfloat option \<Rightarrow> pyfloat option \<Rightarrow> transaction list \<Rightarrow> transaction list" where
  "apply_amount_filter min_amount max_amount ts =
     (if min_amount \<noteq> None \<or> max_amount \<noteq> None
      then filter (within_bounds min_amount max_amount) ts
      else ts)"

definition validate_and_filter ::
  "transaction list \<Rightarrow> string option \<Rightarrow> pyfloat option \<Rightarrow> pyfloat option
     \<Rightarrow> py_error + (transaction list \<times> nat \<times> summary)" where
  "validate_and_filter transactions region min_amount max_amount =
     (let v = validate_loop transactions;
          valid = valid_transactions v
      in case filter_display valid of
           Inl e \<Rightarrow> Inl e
         | Inr shown \<Rightarrow>
             (let by_region = apply_region_filter region valid;
                  filtered = apply_amount_filter min_amount max_amount by_region
              in Inr (filtered, invalid_count v,
                      \<lparr>total_input = length transactions,
                       invalid = invalid_count v,
                       filtered_by_region = length valid - length by_region,
                       filtered_by_amount = length by_region - length filtered,
                       final_count = length filtered\<rparr>)))"

subsection \<open>The validation gate\<close>

definition passes_validation :: "transaction \<Rightarrow> bool" where
  \<comment> \<open>no check of the validation loop sends the transaction to \<^verbatim>\<open>continue\<close>\<close>
  "passes_validation t =
     (\<not> Quantity t \<le> 0 \<and> \<not> fle (UnitPrice t) (Fin 0) \<and>
      py_startswith (TransactionID t) ''T'' \<and> py_startswith (ProductID t) ''P'' \<and>
      py_startswith (CustomerID t) ''C'')"






lemma not_le_zero_iff_positive:
  "x \<noteq> NaN \<Longrightarrow> (\<not> fle x (Fin 0)) = flt (Fin 0) x"
  by (cases x) auto

lemma passes_validation_positive:
  assumes "UnitPrice t \<noteq> NaN"
  shows "passes_validation t =
     (0 < Quantity t \<and> flt (Fin 0) (UnitPrice t) \<and>
      py_startswith (TransactionID t) ''T'' \<and> py_startswith (ProductID t) ''P'' \<and>
      py_startswith (CustomerID t) ''C'')"
  using not_le_zero_iff_positive [OF assms]
  by (auto simp: passes_validation_def)

lemma py_min_nonempty: "xs \<noteq> [] \<Longrightarrow> \<exists>m. py_min xs = Inr m"
  by (cases xs) (simp_all add: py_min_def)

lemma py_max_nonempty: "xs \<noteq> [] \<Longrightarrow> \<exists>m. py_max xs = Inr m"
  by (cases xs) (simp_all add: py_max_def)

lemma filter_display_returns: "\<exists>shown. filter_display valid = Inr shown"
proof (cases "valid = []")
  case True
  then show ?thesis by (simp add: filter_display_def)
next
  case False
  then have ne: "map amount valid \<noteq> []" by simp
  from py_min_nonempty [OF ne] py_max_nonempty [OF ne] ne show ?thesis
    by (auto simp: filter_display_def Let_def)
qed

lemma filter_display_empty:
  "filter_display [] = Inr \<lparr>shown_regions = [], shown_amount_range = None\<rparr>"
  by (simp add: filter_display_def)

lemma validate_and_filter_returns:
  "\<exists>r. validate_and_filter ts region min_amount max_amount = Inr r"
proof -
  obtain shown where "filter_display (valid_transactions (validate_loop ts)) = Inr shown"
    using filter_display_returns by blast
  then show ?thesis
    by (simp add: validate_and_filter_def Let_def)
qed




text \<open>
  Claim C2 says that a transaction is valid exactly when its quantity and unit price are
  greater than 0 and its three identifiers carry their prefixes. The loop tests
  \<^verbatim>\<open>txn["UnitPrice"] <= 0\<close>, which is false for nan, so a transaction whose unit price
  is nan is kept although its price is not greater than 0. Such a transaction is what
  \<^verbatim>\<open>parse_transactions\<close> builds from a line whose price field reads nan: the
  evaluation below follows that line through both functions. For every other unit price
  the gate is the one the claim states (\<open>passes_validation_positive\<close>), each
  transaction failing the gate adds exactly one to the counter (\<open>validate_loop_invalid\<close>)
  and the valid set is the sublist passing it (\<open>validate_loop_valid\<close>).
\<close>

theorem validate_and_filter_keeps_nan_price:
  "fst (parse_transactions [''T005|2024-01-07|P105|Pen|1|nan|C005|North''])
     = [\<lparr>TransactionID = ''T005'', Date = ''2024-01-07'', ProductID = ''P105'',
         ProductName = ''Pen'', Quantity = 1, UnitPrice = NaN, CustomerID = ''C005'',
         Region = ''North''\<rparr>]
   \<and> validate_and_filter
        [\<lparr>TransactionID = ''T005'', Date = ''2024-01-07'', ProductID = ''P105'',
          ProductName = ''Pen'', Quantity = 1, UnitPrice = NaN, CustomerID = ''C005'',
          Region = ''North''\<rparr>] None None None
     = Inr ([\<lparr>TransactionID = ''T005'', Date = ''2024-01-07'', ProductID = ''P105'',
              ProductName = ''Pen'', Quantity = 1, UnitPrice = NaN, CustomerID = ''C005'',
              Region = ''North''\<rparr>], 0,
            \<lparr>total_input = 1, invalid = 0, filtered_by_region = 0, filtered_by_amount = 0,
             final_count = 1\<rparr>)
   \<and> flt (Fin 0) NaN = False"
  by code_simp

subsection \<open>The filter pipeline\<close>




subsection \<open>The older copy of \<^verbatim>\<open>validate_and_filter\<close>\<close>

definition validate_step_old :: "validation \<Rightarrow> transaction \<Rightarrow> validation" where
  "validate_step_old v t =
     (if \<not> py_startswith (TransactionID t) ''T'' \<or>
         \<not> py_startswith (ProductID t) ''P'' \<or>
         \<not> py_startswith (CustomerID t) ''C'' \<or>
         Region t = [] \<or>
         Quantity t \<le> 0 \<or>
         fle (UnitPrice t) (Fin 0)
      then v\<lparr>invalid_count := invalid_count v + 1\<rparr>
      else v\<lparr>valid_transactions := valid_transactions v @ [t]\<rparr>)"

definition validate_loop_old :: "transaction list \<Rightarrow> validation" where
  "validate_loop_old transactions =
     foldl validate_step_old \<lparr>invalid_count = 0, valid_transactions = []\<rparr> transactions"

definition filter_display_old :: "transaction list \<Rightarrow> py_error + string list \<times> int \<times> int" where
  \<comment> \<open>the block FILTER DISPLAY of the older copy: \<^verbatim>\<open>min(amounts), max(amounts)\<close> with no
      guard, shown through \<^verbatim>\<open>int()\<close>\<close>
  "filter_display_old valid =
     (let regions = sort (remdups (map Region valid));
          amounts = map amount valid
      in case py_min amounts of
           Inl e \<Rightarrow> Inl e
         | Inr min_amt \<Rightarrow>
             (case py_max amounts of
                Inl e \<Rightarrow> Inl e
              | Inr max_amt \<Rightarrow>
                  (case int_of_float min_amt of
                     Inl e \<Rightarrow> Inl e
                   | Inr lo \<Rightarrow>
                       (case int_of_float max_amt of
                          Inl e \<Rightarrow> Inl e
                        | Inr hi \<Rightarrow> Inr (regions, lo, hi)))))"

definition validate_and_filter_old ::
  "transaction list \<Rightarrow> string option \<Rightarrow> pyfloat option \<Rightarrow> pyfloat option
     \<Rightarrow> py_error + (transaction list \<times> nat \<times> summary)" where
  "validate_and_filter_old transactions region min_amount max_amount =
     (let v = validate_loop_old transactions;
          valid = valid_transactions v
      in case filter_display_old valid of
           Inl e \<Rightarrow> Inl e
         | Inr shown \<Rightarrow>
             (let by_region =
                    (case region of
                       None \<Rightarrow> valid
                     | Some r \<Rightarrow> if r \<noteq> [] then filter (\<lambda>t. Region t = r) valid else valid);
                  by_min =
                    (case min_amount of
                       None \<Rightarrow> by_region
                     | Some lo \<Rightarrow> filter (\<lambda>t. fle lo (amount t)) by_region);
                  filtered =
                    (case max_amount of
                       None \<Rightarrow> by_min
                     | Some hi \<Rightarrow> filter (\<lambda>t. fle (amount t) hi) by_min)
              in Inr (filtered, invalid_count v,
                      \<lparr>total_input = length transactions,
                       invalid = invalid_count v,
                       filtered_by_region = length valid - length by_region,
                       filtered_by_amount =
                         (length by_region - length by_min) + (length by_min - length filtered),
                       final_count = length filtered\<rparr>)))"

text \<open>
  Claim C6 asks that \<open>validate_and_filter\<close> returns normally when no transaction is valid.
  The current function does: its display step takes the minimum and maximum only of a
  non-empty amount list (\<open>filter_display_empty\<close>), and the function returns for every
  input (\<open>validate_and_filter_returns\<close>). The older copy has no such guard: with no valid
  transaction, \<^verbatim>\<open>min(amounts)\<close> raises \<^verbatim>\<open>ValueError\<close> and the function does not return.
\<close>

theorem validate_and_filter_old_empty_valid_set:
  "validate_and_filter_old [] None None None = Inl ValueError
   \<and> valid_transactions (validate_loop_old [sample_bad_product]) = []
   \<and> validate_and_filter_old [sample_bad_product] None None None = Inl ValueError
   \<and> validate_and_filter [sample_bad_product] None None None
       = Inr ([], 1,
              \<lparr>total_input = 1, invalid = 1, filtered_by_region = 0, filtered_by_amount = 0,
               final_count = 0\<rparr>)"
  by code_simp

section \<open>\<^verbatim>\<open>utils/api_handler.py\<close>: enrichment\<close>

text \<open>
  A catalog entry is the dictionary that \<^verbatim>\<open>create_product_mapping\<close> stores under a product
  id: four keys whose values come from the catalog's JSON. The type \<open>'v\<close> stands for such
  a value; \<open>None\<close> is Python's \<^verbatim>\<open>None\<close>. The product mapping is a map from integer ids
  to entries. An enriched transaction is a copy of the transaction with four more keys.
\<close>

record 'v catalog_entry =
  title :: "'v option"
  category :: "'v option"
  brand :: "'v option"
  rating :: "'v option"

record 'v enriched_transaction = transaction +
  API_Category :: "'v option"
  API_Brand :: "'v option"
  API_Rating :: "'v option"
  API_Match :: bool

definition enrich_defaults :: "transaction \<Rightarrow> 'v enriched_transaction" where
  \<comment> \<open>\<^verbatim>\<open>txn.copy()\<close> followed by the four default assignments\<close>
  "enrich_defaults txn =
     transaction.extend txn (enriched_transaction.fields None None None False)"

definition enrich_try ::
  "string option \<Rightarrow> (int \<rightharpoonup> 'v catalog_entry) \<Rightarrow> 'v enriched_transaction
     \<Rightarrow> py_error + 'v enriched_transaction" where
  \<comment> \<open>the body of the \<^verbatim>\<open>try\<close> block; \<open>product_id_raw\<close> is \<^verbatim>\<open>txn.get("ProductID")\<close>, with
      \<open>None\<close> for a missing key; \<open>Inl\<close> is the exception raised by \<^verbatim>\<open>int()\<close>\<close>
  "enrich_try product_id_raw product_mapping enriched_txn =
     (case product_id_raw of
        None \<Rightarrow> Inr enriched_txn
      | Some pid \<Rightarrow>
          if pid \<noteq> [] then
            (let numeric_id_str = filter py_isdigit pid
             in if numeric_id_str \<noteq> [] then
                  (case py_int numeric_id_str of
                     Inl e \<Rightarrow> Inl e
                   | Inr numeric_id \<Rightarrow>
                       (case product_mapping numeric_id of
                          None \<Rightarrow> Inr enriched_txn
                        | Some api_info \<Rightarrow>
                            Inr (enriched_txn
                                  \<lparr>API_Category := category api_info,
                                   API_Brand := brand api_info,
                                   API_Rating := rating api_info,
                                   API_Match := True\<rparr>)))
                else Inr enriched_txn)
          else Inr enriched_txn)"

definition enrich_with ::
  "string option \<Rightarrow> (int \<rightharpoonup> 'v catalog_entry) \<Rightarrow> 'v enriched_transaction
     \<Rightarrow> py_error + 'v enriched_transaction" where
  \<comment> \<open>the \<^verbatim>\<open>try\<close> statement with its handler \<^verbatim>\<open>except Exception: pass\<close>: nothing had been
      assigned when \<^verbatim>\<open>int()\<close> raised, so the record keeps its defaults\<close>
  "enrich_with product_id_raw product_mapping enriched_txn =
     (case enrich_try product_id_raw product_mapping enriched_txn of
        Inl e \<Rightarrow> Inr enriched_txn
      | Inr filled \<Rightarrow> Inr filled)"

fun enrich_loop ::
  "transaction list \<Rightarrow> (int \<rightharpoonup> 'v catalog_entry) \<Rightarrow> 'v enriched_transaction list
     \<Rightarrow> py_error + 'v enriched_transaction list" where
  "enrich_loop [] product_mapping enriched_transactions = Inr enriched_transactions"
| "enrich_loop (txn # rest) product_mapping enriched_transactions =
     (case enrich_with (Some (ProductID txn)) product_mapping (enrich_defaults txn) of
        Inl e \<Rightarrow> Inl e
      | Inr enriched_txn \<Rightarrow>
          enrich_loop rest product_mapping (enriched_transactions @ [enriched_txn]))"

definition enrich_sales_data ::
  "transaction list \<Rightarrow> (int \<rightharpoonup> 'v catalog_entry)
     \<Rightarrow> py_error + 'v enriched_transaction list" where
  "enrich_sales_data transactions product_mapping = enrich_loop transactions product_mapping []"

definition catalog_hit :: "string \<Rightarrow> (int \<rightharpoonup> 'v catalog_entry) \<Rightarrow> 'v catalog_entry option" where
  \<comment> \<open>the entry a product id joins with: its digit characters, concatenated, must be
      non-empty and read as an integer that is a key of the mapping\<close>
  "catalog_hit pid product_mapping =
     (let digits = filter py_isdigit pid
      in if digits = [] then None
         else (case py_int digits of Inl e \<Rightarrow> None | Inr k \<Rightarrow> product_mapping k))"

definition enriched_as ::
  "transaction \<Rightarrow> 'v catalog_entry option \<Rightarrow> 'v enriched_transaction" where
  \<comment> \<open>the transaction with the enrichment fields of a hit, or with the defaults\<close>
  "enriched_as txn hit =
     (case hit of
        None \<Rightarrow> transaction.extend txn (enriched_transaction.fields None None None False)
      | Some info \<Rightarrow>
          transaction.extend txn
            (enriched_transaction.fields (category info) (brand info) (rating info) True))"

subsection \<open>What enrichment computes\<close>

lemma enrich_with_hit:
  "enrich_with (Some (ProductID txn)) m (enrich_defaults txn)
     = Inr (enriched_as txn (catalog_hit (ProductID txn) m))"
  by (auto simp: enrich_with_def enrich_try_def enrich_defaults_def enriched_as_def
      catalog_hit_def Let_def transaction.defs enriched_transaction.defs
      split: sum.splits option.splits)

lemma enrich_with_absent:
  "enrich_with None m (enrich_defaults txn) = Inr (enrich_defaults txn)"
  by (simp add: enrich_with_def enrich_try_def)

lemma enrich_loop_map:
  "enrich_loop ts m acc = Inr (acc @ map (\<lambda>t. enriched_as t (catalog_hit (ProductID t) m)) ts)"
  by (induction ts arbitrary: acc) (simp_all add: enrich_with_hit)

lemma enrich_sales_data_map:
  "enrich_sales_data ts m = Inr (map (\<lambda>t. enriched_as t (catalog_hit (ProductID t) m)) ts)"
  by (simp add: enrich_sales_data_def enrich_loop_map)

lemma truncate_enriched_as: "transaction.truncate (enriched_as t hit) = t"
  by (cases hit) (simp_all add: enriched_as_def transaction.defs)

lemma catalog_hit_Some_iff:
  "catalog_hit pid m = Some info \<longleftrightarrow>
     filter py_isdigit pid \<noteq> [] \<and> (\<exists>k. py_int (filter py_isdigit pid) = Inr k \<and> m k = Some info)"
  by (auto simp: catalog_hit_def Let_def split: sum.splits)

lemma enriched_as_match:
  "API_Match (enriched_as t hit) = (hit \<noteq> None)"
  by (cases hit) (simp_all add: enriched_as_def transaction.defs enriched_transaction.defs)

lemma enriched_as_fields_hit:
  "API_Category (enriched_as t (Some info)) = category info \<and>
   API_Brand (enriched_as t (Some info)) = brand info \<and>
   API_Rating (enriched_as t (Some info)) = rating info"
  by (simp add: enriched_as_def transaction.defs enriched_transaction.defs)

lemma enriched_as_fields_miss:
  "API_Category (enriched_as t None) = None \<and>
   API_Brand (enriched_as t None) = None \<and>
   API_Rating (enriched_as t None) = None"
  by (simp add: enriched_as_def transaction.defs enriched_transaction.defs)

text \<open>
  Claim C3. For every list of transactions and every product mapping,
  \<open>enrich_sales_data\<close> returns a list (it raises nothing) holding, for each transaction in
  order, the record \<open>enriched_as\<close> builds from the transaction and from the entry
  \<open>catalog_hit\<close> finds for its product id. A product id has an entry exactly when its
  digit characters, concatenated, are non-empty and read as an integer that is a key of
  the mapping; the record then carries the category, brand and rating of that entry and
  \<open>API_Match = True\<close>. With no entry the record carries \<open>None\<close> three times and
  \<open>API_Match = False\<close>: this is the case of an empty product id, and a transaction with
  no product id at all keeps the same defaults.
\<close>

theorem enrich_sales_data_join:
  "enrich_sales_data ts m = Inr (map (\<lambda>t. enriched_as t (catalog_hit (ProductID t) m)) ts)
   \<and> (catalog_hit pid m = Some info \<longleftrightarrow>
        filter py_isdigit pid \<noteq> [] \<and>
        (\<exists>k. py_int (filter py_isdigit pid) = Inr k \<and> m k = Some info))
   \<and> enriched_as txn (Some info)
       = transaction.extend txn
           (enriched_transaction.fields (category info) (brand info) (rating info) True)
   \<and> enriched_as txn None
       = transaction.extend txn (enriched_transaction.fields None None None False)
   \<and> catalog_hit [] m = None
   \<and> enrich_with None m (enrich_defaults txn) = Inr (enriched_as txn None)"
  using enrich_sales_data_map [of ts m] catalog_hit_Some_iff [of pid m info]
    enrich_with_absent [of m txn]
  by (simp add: enriched_as_def catalog_hit_def enrich_defaults_def)

definition sample_catalog :: "int \<rightharpoonup> string catalog_entry" where
  \<comment> \<open>a product mapping with the ids 7 and 101\<close>
  "sample_catalog =
     [7 \<mapsto> \<lparr>title = Some ''Pen'', category = Some ''stationery'', brand = None,
             rating = Some ''4.5''\<rparr>,
      101 \<mapsto> \<lparr>title = Some ''Laptop'', category = Some ''laptops'', brand = Some ''Acme'',
               rating = Some ''4.9''\<rparr>]"

theorem enrich_sales_data_join_witness:
  "enrich_sales_data [sample_laptop, sample_desk] sample_catalog
     = Inr [transaction.extend sample_laptop
             (enriched_transaction.fields (Some ''laptops'') (Some ''Acme'') (Some ''4.9'') True),
            transaction.extend sample_desk
             (enriched_transaction.fields None None None False)]
   \<and> catalog_hit ''P101'' sample_catalog
       = Some \<lparr>title = Some ''Laptop'', category = Some ''laptops'', brand = Some ''Acme'',
               rating = Some ''4.9''\<rparr>
   \<and> py_int (filter py_isdigit ''P101'') = Inr 101"
proof -
  let ?L = "[sample_laptop, sample_desk]"
  let ?info = "\<lparr>title = Some ''Laptop'', category = Some ''laptops'', brand = Some ''Acme'',
               rating = Some ''4.9''\<rparr>"
  note T = enrich_sales_data_join [of ?L sample_catalog "''P101''" ?info sample_laptop]
  have ev: "map (\<lambda>t. enriched_as t (catalog_hit (ProductID t) sample_catalog)) ?L
     = [transaction.extend sample_laptop
             (enriched_transaction.fields (Some ''laptops'') (Some ''Acme'') (Some ''4.9'') True),
        transaction.extend sample_desk
             (enriched_transaction.fields None None None False)]"
    by code_simp
  have d: "filter py_isdigit ''P101'' = ''101''"
    by code_simp
  have k: "py_int ''101'' = Inr 101"
    by code_simp
  have c: "sample_catalog 101 = Some ?info"
    by (simp add: sample_catalog_def)
  have run: "enrich_sales_data ?L sample_catalog
     = Inr [transaction.extend sample_laptop
             (enriched_transaction.fields (Some ''laptops'') (Some ''Acme'') (Some ''4.9'') True),
            transaction.extend sample_desk
             (enriched_transaction.fields None None None False)]"
    using T [THEN conjunct1] unfolding ev .
  have hit: "catalog_hit ''P101'' sample_catalog = Some ?info"
    unfolding T [THEN conjunct2, THEN conjunct1] d using k c by blast
  from k have key: "py_int (filter py_isdigit ''P101'') = Inr 101"
    unfolding d .
  from run hit key show ?thesis
    by blast
qed

text \<open>
  Claim C10. For every list of transactions and every product mapping,
  \<open>enrich_sales_data\<close> returns a list of the same length in the same order, and the eight
  base fields of each record are those of the transaction at the same position: dropping
  the four \<open>API_\<close> fields from the result gives back the input list.
\<close>

theorem enrich_sales_data_frame:
  "\<exists>es. enrich_sales_data ts m = Inr es \<and> length es = length ts \<and>
     map transaction.truncate es = ts \<and>
     (\<forall>i<length ts.
        TransactionID (es ! i) = TransactionID (ts ! i) \<and> Date (es ! i) = Date (ts ! i) \<and>
        ProductID (es ! i) = ProductID (ts ! i) \<and> ProductName (es ! i) = ProductName (ts ! i) \<and>
        Quantity (es ! i) = Quantity (ts ! i) \<and> UnitPrice (es ! i) = UnitPrice (ts ! i) \<and>
        CustomerID (es ! i) = CustomerID (ts ! i) \<and> Region (es ! i) = Region (ts ! i))"
proof -
  let ?es = "map (\<lambda>t. enriched_as t (catalog_hit (ProductID t) m)) ts"
  have run: "enrich_sales_data ts m = Inr ?es"
    by (rule enrich_sales_data_map)
  have trunc: "map transaction.truncate ?es = ts"
    by (simp add: truncate_enriched_as comp_def)
  have base: "TransactionID (enriched_as t h) = TransactionID t \<and> Date (enriched_as t h) = Date t \<and>
      ProductID (enriched_as t h) = ProductID t \<and> ProductName (enriched_as t h) = ProductName t \<and>
      Quantity (enriched_as t h) = Quantity t \<and> UnitPrice (enriched_as t h) = UnitPrice t \<and>
      CustomerID (enriched_as t h) = CustomerID t \<and> Region (enriched_as t h) = Region t"
    for t and h :: "'a catalog_entry option"
    by (cases h) (simp_all add: enriched_as_def transaction.defs)
  from run trunc base show ?thesis
    by (intro exI [of _ ?es]) simp
qed

theorem enrich_sales_data_frame_witness:
  "\<exists>es. enrich_sales_data [sample_laptop, sample_desk] sample_catalog = Inr es \<and>
      length es = 2 \<and> map transaction.truncate es = [sample_laptop, sample_desk]"
  using enrich_sales_data_frame [of "[sample_laptop, sample_desk]" sample_catalog]
  by auto

section \<open>\<^verbatim>\<open>utils/api_handler.py\<close>: the enriched data file\<close>

function digits_of :: "int \<Rightarrow> string" where
  \<comment> \<open>the decimal digits of an integer that is not negative\<close>
  "digits_of n =
     (if n < 10 then [char_of (48 + n)]
      else digits_of (n div 10) @ [char_of (48 + n mod 10)])"
  by pat_completeness auto

termination digits_of
  by (relation "measure nat") auto

declare digits_of.simps [simp del]

definition py_str_int :: "int \<Rightarrow> string" where
  \<comment> \<open>\<^verbatim>\<open>str(n)\<close> for an int\<close>
  "py_str_int n = (if n < 0 then CHR ''-'' # digits_of (- n) else digits_of n)"

definition py_str_bool :: "bool \<Rightarrow> string" where
  "py_str_bool b = (if b then ''True'' else ''False'')"

text \<open>
  The text Python prints for a float is the shortest decimal that reads back as the same
  binary64 number, and the text of a catalog value depends on the JSON type behind \<open>'v\<close>.
  Neither is computed here: \<open>save_enriched_data\<close> takes them as the functions below.
\<close>

record 'v py_text =
  float_str :: "pyfloat \<Rightarrow> string"
  value_truthy :: "'v \<Rightarrow> bool"
  value_str :: "'v \<Rightarrow> string"

definition api_field :: "'v py_text \<Rightarrow> 'v option \<Rightarrow> string" where
  \<comment> \<open>\<^verbatim>\<open>f"{txn.get(key) or ''}"\<close>\<close>
  "api_field fmt x =
     (case x of
        None \<Rightarrow> []
      | Some v \<Rightarrow> if value_truthy fmt v then value_str fmt v else [])"

definition enriched_header :: string where
  "enriched_header =
     ''TransactionID|Date|ProductID|ProductName|Quantity|UnitPrice|'' @
     ''CustomerID|Region|API_Category|API_Brand|API_Rating|API_Match'' @ [CHR 0x0A]"

definition encode_line :: "'v py_text \<Rightarrow> 'v enriched_transaction \<Rightarrow> string" where
  \<comment> \<open>the f-string written for one transaction\<close>
  "encode_line fmt txn =
     TransactionID txn @ ''|'' @
     Date txn @ ''|'' @
     ProductID txn @ ''|'' @
     ProductName txn @ ''|'' @
     py_str_int (Quantity txn) @ ''|'' @
     float_str fmt (UnitPrice txn) @ ''|'' @
     CustomerID txn @ ''|'' @
     Region txn @ ''|'' @
     api_field fmt (API_Category txn) @ ''|'' @
     api_field fmt (API_Brand txn) @ ''|'' @
     api_field fmt (API_Rating txn) @ ''|'' @
     py_str_bool (API_Match txn) @ [CHR 0x0A]"

definition save_enriched_data :: "'v py_text \<Rightarrow> 'v enriched_transaction list \<Rightarrow> string list" where
  \<comment> \<open>the texts written to the file, in order: the header, then one line per transaction\<close>
  "save_enriched_data fmt enriched_transactions =
     enriched_header # map (encode_line fmt) enriched_transactions"




subsection \<open>Facts about the string operations\<close>















subsection \<open>Reading back the text of an int\<close>
















subsection \<open>The shape of a parsed transaction\<close>









subsection \<open>Writing a transaction and reading it back\<close>










section \<open>\<^verbatim>\<open>utils/data_processor.py\<close>: aggregation\<close>

text \<open>
  The aggregation functions group the transactions in a dictionary whose values hold a
  running sum and a count. Python dictionaries keep their keys in insertion order, so such
  a dictionary is a list of \<open>(key, sum, count)\<close> in the order in which the keys were first
  seen. On the transaction records no step of the loops can raise, so the clauses
  \<^verbatim>\<open>except (KeyError, TypeError)\<close> have no branch here.
\<close>

fun add_to_group :: "string \<Rightarrow> pyfloat \<Rightarrow> (string \<times> pyfloat \<times> nat) list
    \<Rightarrow> (string \<times> pyfloat \<times> nat) list" where
  \<comment> \<open>\<^verbatim>\<open>if key not in d: d[key] = {sum: 0.0, count: 0}\<close>, then \<^verbatim>\<open>sum += amount; count += 1\<close>\<close>
  "add_to_group key amt [] = [(key, fadd (Fin 0) amt, 1)]"
| "add_to_group key amt ((k, acc, n) # rest) =
     (if k = key then (k, fadd acc amt, n + 1) # rest
      else (k, acc, n) # add_to_group key amt rest)"

record region_stats =
  total_sales :: pyfloat
  transaction_count :: nat
  percentage :: pyfloat

definition region_step ::
  "(string \<times> pyfloat \<times> nat) list \<times> pyfloat \<Rightarrow> transaction
     \<Rightarrow> (string \<times> pyfloat \<times> nat) list \<times> pyfloat" where
  \<comment> \<open>one iteration of the first loop of \<^verbatim>\<open>region_wise_sales\<close>\<close>
  "region_step s txn =
     (let region = Region txn; amt = amount txn
      in (add_to_group region amt (fst s), fadd (snd s) amt))"



fun insert_desc :: "('a \<Rightarrow> pyfloat) \<Rightarrow> 'a \<Rightarrow> 'a list \<Rightarrow> 'a list" where
  "insert_desc key x [] = [x]"
| "insert_desc key x (y # ys) =
     (if flt (key x) (key y) then y # insert_desc key x ys else x # y # ys)"

definition sort_desc :: "('a \<Rightarrow> pyfloat) \<Rightarrow> 'a list \<Rightarrow> 'a list" where
  \<comment> \<open>\<^verbatim>\<open>sorted(xs, key=key, reverse=True)\<close>: a stable sort into descending order. For keys
      that include nan the order Python produces depends on the steps of its sorting
      algorithm; this definition is meant for keys without nan\<close>
  "sort_desc key xs = foldr (insert_desc key) xs []"


subsection \<open>The older copy of \<^verbatim>\<open>region_wise_sales\<close>\<close>

fun finish_regions_old :: "pyfloat \<Rightarrow> (string \<times> pyfloat \<times> nat) list
    \<Rightarrow> py_error + (string \<times> region_stats) list" where
  \<comment> \<open>the percentage loop of the older copy divides by \<open>grand_total\<close> without a guard\<close>
  "finish_regions_old grand_total [] = Inr []"
| "finish_regions_old grand_total ((region, sales, n) # rest) =
     (case fdiv sales grand_total of
        Inl e \<Rightarrow> Inl e
      | Inr q \<Rightarrow>
          (case finish_regions_old grand_total rest of
             Inl e \<Rightarrow> Inl e
           | Inr finished \<Rightarrow>
               Inr ((region,
                     \<lparr>total_sales = round2 sales, transaction_count = n,
                      percentage = round2 (fmul q (Fin 100))\<rparr>) # finished)))"

definition region_wise_sales_old ::
  "transaction list \<Rightarrow> py_error + (string \<times> region_stats) list" where
  "region_wise_sales_old transactions =
     (let s = foldl region_step ([], Fin 0) transactions
      in case finish_regions_old (snd s) (fst s) of
           Inl e \<Rightarrow> Inl e
         | Inr stats \<Rightarrow> Inr (sort_desc (\<lambda>item. total_sales (snd item)) stats))"

subsection \<open>\<^verbatim>\<open>find_peak_sales_day\<close>\<close>




subsection \<open>What grouping computes\<close>















subsection \<open>Order facts about floats\<close>








subsection \<open>The descending sort\<close>









subsection \<open>Region-wise sales\<close>



definition sample_return :: transaction where
  \<comment> \<open>a transaction with a negative quantity\<close>
  "sample_return =
     \<lparr>TransactionID = ''T009'', Date = ''2024-01-09'', ProductID = ''P101'',
      ProductName = ''Laptop'', Quantity = - 1, UnitPrice = Fin 50000, CustomerID = ''C001'',
      Region = ''North''\<rparr>"











lemma region_wise_sales_old_zero_total:
  "region_wise_sales_old [sample_return\<lparr>Quantity := 0\<rparr>] = Inl ZeroDivisionError"
  by code_simp

subsection \<open>The peak sales day\<close>









end
